theory Spec2Isabelle
  imports Main
begin

section \<open>Warehouse API of ddpui: a shallow embedding of \<^verbatim>\<open>ddpui/api/warehouse_api.py\<close>\<close>

text \<open>
  The request handlers of \<^verbatim>\<open>warehouse_api.py\<close> are translated into functions that take
  the state they read (database tables, the task queue, the progress store) and return
  their response together with the state they leave behind. A raised \<^verbatim>\<open>HttpError\<close> is the
  \<open>Inl\<close> branch of the response; the state returned with it is the state at the moment
  of the raise, since nothing in the handlers rolls a change back.
\<close>

subsection \<open>HTTP errors\<close>

text \<open>\<^verbatim>\<open>HttpError(status, message)\<close> of ninja: the status code and the detail sent to the client.\<close>

datatype http_error = HttpError (status_code: int) (detail: string)

text \<open>
  An exception that is not an \<^verbatim>\<open>HttpError\<close> reaches \<^verbatim>\<open>ninja_default_error_handler\<close>
  (lines 68-74), which answers 500 "something went wrong".
\<close>

definition ninja_default_error_handler :: http_error where
  "ninja_default_error_handler = HttpError 500 ''something went wrong''"

subsection \<open>Rows and the ORM calls the handlers use\<close>

text \<open>
  \<^verbatim>\<open>QuerySet.first()\<close> on a query set without an ordering orders by primary key and
  returns the first row, or \<^verbatim>\<open>None\<close> when there is none.
\<close>

fun first_by :: "('a \<Rightarrow> nat) \<Rightarrow> 'a list \<Rightarrow> 'a option" where
  "first_by k [] = None"
| "first_by k (x # xs) =
     (case first_by k xs of
        None \<Rightarrow> Some x
      | Some y \<Rightarrow> if k x \<le> k y then Some x else Some y)"

text \<open>\<^verbatim>\<open>instance.delete()\<close>: the row with the instance's primary key is removed.\<close>

definition delete_row :: "('a \<Rightarrow> nat) \<Rightarrow> 'a \<Rightarrow> 'a list \<Rightarrow> 'a list" where
  "delete_row k r tbl = filter (\<lambda>x. k x \<noteq> k r) tbl"

text \<open>
  \<^verbatim>\<open>instance.save()\<close> of an instance that has a primary key: the row with that key is
  updated with the instance's fields; when no row has the key, the instance is inserted.
\<close>

definition save_row :: "('a \<Rightarrow> nat) \<Rightarrow> 'a \<Rightarrow> 'a list \<Rightarrow> 'a list" where
  "save_row k r tbl =
     (if k r \<in> set (map k tbl) then map (\<lambda>x. if k x = k r then r else x) tbl
      else tbl @ [r])"

subsection \<open>LLM sessions\<close>

datatype LlmSessionStatus = RUNNING | COMPLETE | ERROR

datatype LlmAssistantType = LONG_TEXT_SUMMARIZATION | OTHER_ASSISTANT

text \<open>
  A row of \<^verbatim>\<open>LlmSession\<close> with the fields the handlers read and write. \<open>org\<close> is the
  primary key of the owning organisation, \<open>created_by_email\<close> stands for
  \<^verbatim>\<open>session.orguser.user.email\<close>, the time stamps are seconds on some clock.
\<close>

record LlmSession =
  pk :: nat
  session_id :: string
  org :: nat
  session_type :: LlmAssistantType
  session_status :: LlmSessionStatus
  session_name :: "string option"
  request_uuid :: string
  request_meta :: string
  assistant_prompt :: string
  response :: string
  feedback :: "string option"
  created_at :: int
  updated_at :: int
  created_by_email :: string

text \<open>
  \<^verbatim>\<open>LlmSession.objects.filter(session_id=sid, org=org,
  session_type=LlmAssistantType.LONG_TEXT_SUMMARIZATION)\<close>, the query of lines 402-406,
  416-420 and 445-449.
\<close>

definition llm_filter :: "nat \<Rightarrow> string \<Rightarrow> LlmSession list \<Rightarrow> LlmSession list" where
  "llm_filter org_id sid tbl =
     filter (\<lambda>s. session_id s = sid \<and> org s = org_id
                 \<and> session_type s = LONG_TEXT_SUMMARIZATION) tbl"

text \<open>
  \<^verbatim>\<open>LlmSession.objects.filter(org=org, session_name__isnull=False,
  session_type=LlmAssistantType.LONG_TEXT_SUMMARIZATION)\<close>, the query of lines 474-478
  and 484-488.
\<close>

definition saved_filter :: "nat \<Rightarrow> LlmSession list \<Rightarrow> LlmSession list" where
  "saved_filter org_id tbl =
     filter (\<lambda>s. org s = org_id \<and> session_name s \<noteq> None
                 \<and> session_type s = LONG_TEXT_SUMMARIZATION) tbl"

text \<open>The response \<^verbatim>\<open>{"success": 1}\<close>.\<close>

datatype success = Success int

subsection \<open>Saving a session (lines 393-433)\<close>

text \<open>
  The payload \<^verbatim>\<open>SaveLlmSessionRequest\<close>; the fields carry the prefix \<open>req_\<close> because
  \<open>session_name\<close> is a field of the session too.
\<close>

record SaveLlmSessionRequest =
  req_session_name :: string
  req_overwrite :: bool
  req_old_session_id :: "string option"

text \<open>Python's truth value of an optional string: \<^verbatim>\<open>None\<close> and \<^verbatim>\<open>""\<close> are false.\<close>

fun truthy :: "string option \<Rightarrow> bool" where
  "truthy None = False"
| "truthy (Some s) = (s \<noteq> [])"

text \<open>
  Lines 414-425: the deletion of the old session, which happens when \<^verbatim>\<open>payload.overwrite\<close>
  is set. It is reached only with a truthy \<^verbatim>\<open>old_session_id\<close>; the \<open>None\<close> case is
  the query \<^verbatim>\<open>filter(session_id=None, ...)\<close>, which matches no row.
\<close>

definition delete_old_session :: "nat \<Rightarrow> string option \<Rightarrow> LlmSession list \<Rightarrow> LlmSession list" where
  "delete_old_session org_id old_id tbl =
     (case old_id of
        None \<Rightarrow> tbl
      | Some sid \<Rightarrow>
          (case first_by pk (llm_filter org_id sid tbl) of
             None \<Rightarrow> tbl
           | Some old_session \<Rightarrow> delete_row pk old_session tbl))"

text \<open>
  \<open>org_id\<close> is \<^verbatim>\<open>request.orguser.org\<close>; \<open>now\<close> is the time of the request, which
  \<^verbatim>\<open>save()\<close> writes into \<open>updated_at\<close>: the field is taken to be declared with
  \<^verbatim>\<open>auto_now=True\<close>, as the \<^verbatim>\<open>updated_at\<close> of every model of \<^verbatim>\<open>ddpui/models/org.py\<close> is.
  A save that keeps the old time stamp is the case \<open>now = updated_at\<close> of the session.
\<close>

definition post_save_warehouse_prompt_session ::
  "nat \<Rightarrow> int \<Rightarrow> string \<Rightarrow> SaveLlmSessionRequest \<Rightarrow> LlmSession list
     \<Rightarrow> (http_error + success) \<times> LlmSession list" where
  "post_save_warehouse_prompt_session org_id now new_session_id payload tbl =
     (case first_by pk (llm_filter org_id new_session_id tbl) of
        None \<Rightarrow> (Inl (HttpError 404 ''Session not found''), tbl)
      | Some new_session \<Rightarrow>
          if req_overwrite payload \<and> \<not> truthy (req_old_session_id payload)
          then (Inl (HttpError 400 ''session to overwrite is required''), tbl)
          else
            let tbl1 = (if req_overwrite payload
                        then delete_old_session org_id (req_old_session_id payload) tbl
                        else tbl)
            in if session_status new_session = RUNNING
               then (Inl (HttpError 400 ''Session is still in progress''), tbl1)
               else (Inr (Success 1),
                     save_row pk (new_session\<lparr>session_name := Some (req_session_name payload),
                                               updated_at := now\<rparr>) tbl1))"

subsection \<open>Feedback on a session (lines 436-457)\<close>

definition post_feedback_llm_session ::
  "nat \<Rightarrow> int \<Rightarrow> string \<Rightarrow> string \<Rightarrow> LlmSession list
     \<Rightarrow> (http_error + success) \<times> LlmSession list" where
  "post_feedback_llm_session org_id now sid payload_feedback tbl =
     (case first_by pk (llm_filter org_id sid tbl) of
        None \<Rightarrow> (Inl (HttpError 404 ''Session not found''), tbl)
      | Some session \<Rightarrow>
          (Inr (Success 1),
           save_row pk (session\<lparr>feedback := Some payload_feedback, updated_at := now\<rparr>) tbl))"

subsection \<open>Listing the saved sessions (lines 460-511)\<close>

text \<open>
  \<^verbatim>\<open>order_by("-updated_at")\<close>: the rows by decreasing \<open>updated_at\<close>. The database leaves
  the order of rows with equal time stamps open; the model keeps them in table order.
\<close>

definition order_by_updated_at_desc :: "LlmSession list \<Rightarrow> LlmSession list" where
  "order_by_updated_at_desc xs = sort_key (\<lambda>s. - updated_at s) xs"

text \<open>
  The slice \<^verbatim>\<open>[offset : offset + limit]\<close> of a query set: a negative bound raises
  (\<^verbatim>\<open>Negative indexing is not supported\<close>), otherwise the rows from position \<open>offset\<close> up to,
  not including, position \<open>offset + limit\<close>.
\<close>

definition queryset_slice :: "int \<Rightarrow> int \<Rightarrow> 'a list \<Rightarrow> 'a list option" where
  "queryset_slice start stop xs =
     (if start < 0 \<or> stop < 0 then None
      else Some (drop (nat start) (take (nat stop) xs)))"

record session_row =
  row_session_id :: string
  row_session_name :: "string option"
  row_session_status :: LlmSessionStatus
  row_request_uuid :: string
  row_request_meta :: string
  row_assistant_prompt :: string
  row_response :: string
  row_created_at :: int
  row_updated_at :: int
  row_created_by :: string

definition to_row :: "LlmSession \<Rightarrow> session_row" where
  "to_row s =
     \<lparr>row_session_id = session_id s,
      row_session_name = session_name s,
      row_session_status = session_status s,
      row_request_uuid = request_uuid s,
      row_request_meta = request_meta s,
      row_assistant_prompt = assistant_prompt s,
      row_response = response s,
      row_created_at = created_at s,
      row_updated_at = updated_at s,
      row_created_by = created_by_email s\<rparr>"

record sessions_page =
  page_limit :: int
  page_offset :: int
  total_rows :: nat
  rows :: "session_row list"

definition get_warehouse_llm_analysis_sessions ::
  "nat \<Rightarrow> int \<Rightarrow> int \<Rightarrow> LlmSession list \<Rightarrow> http_error + sessions_page" where
  "get_warehouse_llm_analysis_sessions org_id limit offset tbl =
     (case queryset_slice offset (offset + limit)
             (order_by_updated_at_desc (saved_filter org_id tbl)) of
        None \<Rightarrow> Inl ninja_default_error_handler
      | Some sessions \<Rightarrow>
          Inr \<lparr>page_limit = limit, page_offset = offset,
               total_rows = length (saved_filter org_id tbl),
               rows = map to_row sessions\<rparr>)"

subsection \<open>Python strings and numbers\<close>

text \<open>
  The handler of the prompt calls two built-ins of Python on the text of a token:
  \<^verbatim>\<open>str.upper()\<close> and \<^verbatim>\<open>int()\<close>. What they answer rests on the Unicode tables and on the
  interpreter: \<^verbatim>\<open>str.upper()\<close> maps more letters than a-z (U+0131, the dotless i, goes to
  \<^verbatim>\<open>I\<close>), \<^verbatim>\<open>int()\<close> accepts blanks around the number, underscores between digits and
  the digits of other scripts, and raises \<^verbatim>\<open>ValueError\<close> on a text with more digits than
  the interpreter's limit (4300 by default). The handler is therefore defined over any
  two functions \<open>upper :: string \<Rightarrow> string\<close> and \<open>to_int :: string \<Rightarrow> int option\<close>,
  where \<open>None\<close> is the \<^verbatim>\<open>ValueError\<close>; what is proved of it holds for the functions of
  the interpreter, whatever they answer. A text is the list of its bytes.
\<close>

text \<open>\<^verbatim>\<open>str(n)\<close> of an integer, as the f-strings of lines 366 and 371 format it.\<close>

function str_nat :: "nat \<Rightarrow> string" where
  "str_nat n =
     (if n < 10 then [''0123456789'' ! n]
      else str_nat (n div 10) @ [''0123456789'' ! (n mod 10)])"
  by pat_completeness auto
termination
  by (relation "measure (\<lambda>n. n)") auto

definition str_int :: "int \<Rightarrow> string" where
  "str_int i = (if i < 0 then CHR ''-'' # str_nat (nat (- i)) else str_nat (nat i))"

subsection \<open>Statements and tokens of sqlparse\<close>

text \<open>
  The token types of \<^verbatim>\<open>sqlparse.tokens\<close> that occur in a SELECT statement. The handler
  compares them with \<^verbatim>\<open>is\<close>, so \<^verbatim>\<open>Keyword.DML\<close> is not \<^verbatim>\<open>Keyword\<close>. A token that groups
  other tokens (an identifier, a parenthesis, a list of identifiers) has \<^verbatim>\<open>ttype None\<close>.
\<close>

datatype ttype =
    Keyword | Keyword_DML | Keyword_Order
  | Literal_Number_Integer | Literal_Number_Float | Literal_String_Single
  | Text_Whitespace | Text_Whitespace_Newline
  | Punctuation | Name | Wildcard | Operator | Operator_Comparison | Comment_Single

record token =
  ttype :: "ttype option"
  token_value :: string

text \<open>
  A parsed statement: what \<^verbatim>\<open>get_type()\<close> answers and the top-level tokens
  \<^verbatim>\<open>stmt.tokens\<close>. The parser \<^verbatim>\<open>sqlparse.parse\<close> is a library; the handlers below take it
  as the parameter \<open>parse\<close>.
\<close>

record statement =
  get_type :: string
  tokens :: "token list"

subsection \<open>The limit scan of lines 348-361\<close>

text \<open>The value of \<^verbatim>\<open>limit\<close>: \<^verbatim>\<open>float("inf")\<close> or an integer.\<close>

datatype limit_value = PyInf | PyInt int

text \<open>\<^verbatim>\<open>limit > n\<close> for an integer \<open>n\<close>.\<close>

fun limit_gt :: "limit_value \<Rightarrow> int \<Rightarrow> bool" where
  "limit_gt PyInf n = True"
| "limit_gt (PyInt m) n = (n < m)"

datatype py_exception = ValueError | BrokerError string

text \<open>\<^verbatim>\<open>token.ttype is Keyword and token.value.upper() == "LIMIT"\<close>\<close>

definition is_limit_keyword :: "(string \<Rightarrow> string) \<Rightarrow> token \<Rightarrow> bool" where
  "is_limit_keyword upper t = (ttype t = Some Keyword \<and> upper (token_value t) = ''LIMIT'')"

text \<open>\<^verbatim>\<open>token.ttype is Token.Literal.Number.Integer\<close>\<close>

definition is_integer_token :: "token \<Rightarrow> bool" where
  "is_integer_token t = (ttype t = Some Literal_Number_Integer)"

text \<open>
  The inner loop over \<^verbatim>\<open>stmt.tokens\<close>, on the pair \<open>(limit, limit_found)\<close>; the
  \<^verbatim>\<open>break\<close> is the branch without a recursive call.
\<close>

fun scan_tokens ::
  "(string \<Rightarrow> string) \<Rightarrow> (string \<Rightarrow> int option) \<Rightarrow> token list \<Rightarrow> limit_value \<times> bool
     \<Rightarrow> py_exception + limit_value \<times> bool" where
  "scan_tokens upper to_int [] st = Inr st"
| "scan_tokens upper to_int (t # ts) (limit, limit_found) =
     (let limit_found1 = (if \<not> limit_found \<and> is_limit_keyword upper t then True
                          else limit_found)
      in if limit_found1 \<and> is_integer_token t
         then (case to_int (token_value t) of
                 None \<Rightarrow> Inl ValueError
               | Some n \<Rightarrow> Inr (PyInt n, limit_found1))
         else scan_tokens upper to_int ts (limit, limit_found1))"

text \<open>The outer loop \<^verbatim>\<open>for stmt in stmts\<close>.\<close>

fun scan_stmts ::
  "(string \<Rightarrow> string) \<Rightarrow> (string \<Rightarrow> int option) \<Rightarrow> statement list \<Rightarrow> limit_value \<times> bool
     \<Rightarrow> py_exception + limit_value \<times> bool" where
  "scan_stmts upper to_int [] st = Inr st"
| "scan_stmts upper to_int (stmt # stmts) st =
     (case scan_tokens upper to_int (tokens stmt) st of
        Inl e \<Rightarrow> Inl e
      | Inr st1 \<Rightarrow> scan_stmts upper to_int stmts st1)"

subsection \<open>The state behind the submission handlers\<close>

record OrgWarehouse =
  warehouse_id :: nat
  warehouse_org :: nat
  wtype :: string

record OrgUser =
  orguser_id :: nat
  orguser_org :: nat

record AskWarehouseRequest =
  sql :: string
  user_prompt :: string

text \<open>\<^verbatim>\<open>payload.dict()\<close> of a \<^verbatim>\<open>RequestorColumnSchema\<close>: field names and values.\<close>

type_synonym RequestorColumnSchema = "(string \<times> string) list"

text \<open>
  The two celery tasks with the arguments the handlers give them:
  \<^verbatim>\<open>poll_for_column_insights(org_warehouse_id, payload, task_id)\<close> and
  \<^verbatim>\<open>summarize_warehouse_results(orguser_id, org_warehouse_id, sql, user_prompt)\<close>.
\<close>

datatype celery_call =
    poll_for_column_insights nat RequestorColumnSchema string
  | summarize_warehouse_results nat nat string string

datatype result_status = RESULT_STATUS_FETCHING | RESULT_STATUS_ERROR | RESULT_STATUS_SUCCESS

record progress_entry =
  message :: string
  status :: result_status
  results :: "string list"

datatype TaskProgressHashPrefix = DATAINSIGHTS | OTHER_HASH_PREFIX

text \<open>
  What the submission handlers read and write:
  \<^item> \<open>org_warehouses\<close>: the table \<^verbatim>\<open>OrgWarehouse\<close>;
  \<^item> \<open>broker_fault\<close>: \<open>Some msg\<close> when publishing a task to the celery broker raises an
    exception whose text is \<open>msg\<close>, \<open>None\<close> when the broker accepts tasks;
  \<^item> \<open>task_queue\<close>: the published tasks with their celery identifiers, oldest first; a
    task in the queue has not been run;
  \<^item> \<open>uuid_source\<close>, \<open>uuid_drawn\<close>: the random UUIDs of this process, as the sequence
    of values that \<^verbatim>\<open>uuid.uuid4()\<close> returns, and how many of them have been drawn;
  \<^item> \<open>taskprogress\<close>: the progress entries in the store, by hash prefix and task identifier;
  \<^item> \<open>singletaskprogress\<close>: the keys of \<^verbatim>\<open>SingleTaskProgress\<close> with their entries and
    their time to live in seconds.
\<close>

record world =
  org_warehouses :: "OrgWarehouse list"
  broker_fault :: "string option"
  task_queue :: "(string \<times> celery_call) list"
  uuid_source :: "nat \<Rightarrow> string"
  uuid_drawn :: nat
  taskprogress :: "TaskProgressHashPrefix \<times> string \<Rightarrow> progress_entry list option"
  singletaskprogress :: "string \<Rightarrow> (progress_entry list \<times> int) option"

text \<open>\<^verbatim>\<open>OrgWarehouse.objects.filter(org=org).first()\<close>\<close>

definition org_warehouse_first :: "nat \<Rightarrow> world \<Rightarrow> OrgWarehouse option" where
  "org_warehouse_first org_id w =
     first_by warehouse_id (filter (\<lambda>x. warehouse_org x = org_id) (org_warehouses w))"

text \<open>\<^verbatim>\<open>str(uuid.uuid4())\<close>: the next value of the source.\<close>

definition uuid4 :: "world \<Rightarrow> string \<times> world" where
  "uuid4 w = (uuid_source w (uuid_drawn w), w\<lparr>uuid_drawn := Suc (uuid_drawn w)\<rparr>)"

text \<open>
  \<^verbatim>\<open>task.apply_async(...)\<close> and \<^verbatim>\<open>task.delay(...)\<close>: celery draws an identifier for the
  task and publishes it; the call returns once the broker has the message, or raises.
\<close>

definition apply_async :: "celery_call \<Rightarrow> world \<Rightarrow> py_exception + string \<times> world" where
  "apply_async call w =
     (case broker_fault w of
        Some msg \<Rightarrow> Inl (BrokerError msg)
      | None \<Rightarrow>
          (case uuid4 w of
             (celery_id, w1) \<Rightarrow>
               Inr (celery_id, w1\<lparr>task_queue := task_queue w1 @ [(celery_id, call)]\<rparr>)))"

text \<open>
  Modelled from the spec: \<^verbatim>\<open>TaskProgress(task_id, prefix).add(entry)\<close> of
  \<^verbatim>\<open>ddpui/utils/taskprogress.py\<close>, which is not among the sources. The spec, sections 2 and
  3: the tracker appends progress entries under a key made of a fixed namespace prefix
  and the task identifier; the store keeps the ordered history under that key.
\<close>

definition taskprogress_add ::
  "TaskProgressHashPrefix \<Rightarrow> string \<Rightarrow> progress_entry \<Rightarrow> world \<Rightarrow> world" where
  "taskprogress_add prefix task_id entry w =
     w\<lparr>taskprogress := (taskprogress w)
          ((prefix, task_id) \<mapsto>
             (case taskprogress w (prefix, task_id) of None \<Rightarrow> [] | Some es \<Rightarrow> es) @ [entry])\<rparr>"

text \<open>
  Modelled from the spec: \<^verbatim>\<open>SingleTaskProgress(key, ttl)\<close> of
  \<^verbatim>\<open>ddpui/utils/singletaskprogress.py\<close>, which is not among the sources. The spec, section
  4.1: it registers the key in the store with a bounded time to live.
\<close>

definition SingleTaskProgress :: "string \<Rightarrow> int \<Rightarrow> world \<Rightarrow> world" where
  "SingleTaskProgress task_key expire_in_seconds w =
     w\<lparr>singletaskprogress := (singletaskprogress w)(task_key \<mapsto> ([], expire_in_seconds))\<rparr>"

subsection \<open>Submitting an insight computation (lines 237-269)\<close>

definition fetching_entry :: progress_entry where
  "fetching_entry =
     \<lparr>message = ''Fetching insights'', status = RESULT_STATUS_FETCHING, results = []\<rparr>"

definition post_data_insights ::
  "OrgUser \<Rightarrow> RequestorColumnSchema \<Rightarrow> world \<Rightarrow> (http_error + string) \<times> world" where
  "post_data_insights orguser payload w =
     (case org_warehouse_first (orguser_org orguser) w of
        None \<Rightarrow> (Inl (HttpError 404 ''Please set up your warehouse first''), w)
      | Some org_warehouse \<Rightarrow>
          (case uuid4 w of
             (task_id, w1) \<Rightarrow>
               let w2 = taskprogress_add DATAINSIGHTS task_id fetching_entry w1
               in (case apply_async
                          (poll_for_column_insights (warehouse_id org_warehouse) payload task_id)
                          w2 of
                     Inl err \<Rightarrow>
                       (Inl (HttpError 500 (case err of BrokerError msg \<Rightarrow> msg
                                                      | ValueError \<Rightarrow> [])), w2)
                   | Inr (celery_id, w3) \<Rightarrow> (Inr task_id, w3))))"

subsection \<open>Submitting a prompt on a query (lines 323-390)\<close>

text \<open>
  \<open>parse\<close> is \<^verbatim>\<open>sqlparse.parse\<close>, \<open>upper\<close> and \<open>to_int\<close> are \<^verbatim>\<open>str.upper\<close> and \<^verbatim>\<open>int\<close>,
  and \<open>limit_rows\<close> is the constant \<^verbatim>\<open>LIMIT_ROWS_TO_SEND_TO_LLM\<close> of
  \<^verbatim>\<open>ddpui/utils/constants.py\<close>. A \<^verbatim>\<open>ValueError\<close> of \<^verbatim>\<open>int(token.value)\<close> is raised outside
  the \<^verbatim>\<open>try\<close> and reaches the default handler.
\<close>

definition post_warehouse_prompt ::
  "(string \<Rightarrow> statement list) \<Rightarrow> (string \<Rightarrow> string) \<Rightarrow> (string \<Rightarrow> int option) \<Rightarrow> int
     \<Rightarrow> OrgUser \<Rightarrow> AskWarehouseRequest \<Rightarrow> world \<Rightarrow> (http_error + string) \<times> world" where
  "post_warehouse_prompt parse upper to_int limit_rows orguser payload w =
     (let stmts = parse (sql payload) in
      if length stmts > 1 then (Inl (HttpError 400 ''Only one query is allowed''), w)
      else if length stmts = 0 then (Inl (HttpError 400 ''No query provided''), w)
      else if get_type (hd stmts) \<noteq> ''SELECT''
      then (Inl (HttpError 400 ''Only SELECT queries are allowed''), w)
      else
        (case org_warehouse_first (orguser_org orguser) w of
           None \<Rightarrow> (Inl (HttpError 404 ''Please set up your warehouse first''), w)
         | Some org_warehouse \<Rightarrow>
             (case scan_stmts upper to_int stmts (PyInf, False) of
                Inl e \<Rightarrow> (Inl ninja_default_error_handler, w)
              | Inr (limit, limit_found) \<Rightarrow>
                  if limit_found \<and> limit_gt limit limit_rows
                  then (Inl (HttpError 400
                          (''Please make sure the limit in query is less than ''
                             @ str_int limit_rows)), w)
                  else
                    let sql1 = (if \<not> limit_found
                                then sql payload @ '' LIMIT '' @ str_int limit_rows
                                else sql payload)
                    in (case apply_async
                               (summarize_warehouse_results (orguser_id orguser)
                                  (warehouse_id org_warehouse) sql1 (user_prompt payload))
                               w of
                          Inl error \<Rightarrow>
                            (Inl (HttpError 400 ''failed to summarize warehouse results''), w)
                        | Inr (task_id, w1) \<Rightarrow>
                            (Inr task_id, SingleTaskProgress task_id (60 * 10) w1)))))"

subsection \<open>Example data\<close>

text \<open>A session of organisation 1 with the given key, identifier, status, name and time stamp.\<close>

definition mk_session ::
  "nat \<Rightarrow> string \<Rightarrow> LlmSessionStatus \<Rightarrow> string option \<Rightarrow> int \<Rightarrow> LlmSession" where
  "mk_session i sid st nm upd =
     \<lparr>pk = i, session_id = sid, org = 1, session_type = LONG_TEXT_SUMMARIZATION,
      session_status = st, session_name = nm, request_uuid = ''r'', request_meta = ''{}'',
      assistant_prompt = ''p'', response = ''ok'', feedback = None, created_at = 0,
      updated_at = upd, created_by_email = ''a@b.org''\<rparr>"

definition running_target :: LlmSession where
  "running_target = mk_session 1 ''new'' RUNNING None 10"

definition complete_target :: LlmSession where
  "complete_target = mk_session 1 ''new'' COMPLETE None 10"

definition old_saved :: LlmSession where
  "old_saved = mk_session 2 ''X'' COMPLETE (Some ''report'') 5"

text \<open>Three saved and two unsaved sessions of organisation 1.\<close>

definition five_sessions :: "LlmSession list" where
  "five_sessions =
     [mk_session 1 ''a'' COMPLETE (Some ''first'') 30,
      mk_session 2 ''b'' COMPLETE None 35,
      mk_session 3 ''c'' COMPLETE (Some ''second'') 50,
      mk_session 4 ''d'' RUNNING None 60,
      mk_session 5 ''e'' ERROR (Some ''third'') 40]"

text \<open>
  The functions used for \<open>upper\<close> and \<open>to_int\<close> in the examples. They are
  \<^verbatim>\<open>str.upper()\<close> and \<^verbatim>\<open>int()\<close> on the texts the examples hold: \<open>upper_ascii\<close> moves the
  letters a-z to A-Z and leaves every other byte, \<open>int_decimal\<close> reads an optional sign
  and up to 4300 decimal digits.
\<close>

definition upper_ascii_char :: "char \<Rightarrow> char" where
  "upper_ascii_char c =
     (let n = (of_char c :: nat)
      in if 97 \<le> n \<and> n \<le> 122 then ''ABCDEFGHIJKLMNOPQRSTUVWXYZ'' ! (n - 97) else c)"

definition upper_ascii :: "string \<Rightarrow> string" where
  "upper_ascii s = map upper_ascii_char s"

definition digit_val :: "char \<Rightarrow> nat option" where
  "digit_val c =
     (let n = (of_char c :: nat) in if 48 \<le> n \<and> n \<le> 57 then Some (n - 48) else None)"

fun digits_val :: "string \<Rightarrow> nat \<Rightarrow> nat option" where
  "digits_val [] acc = Some acc"
| "digits_val (c # cs) acc =
     (case digit_val c of None \<Rightarrow> None | Some d \<Rightarrow> digits_val cs (10 * acc + d))"

definition int_decimal :: "string \<Rightarrow> int option" where
  "int_decimal s =
     (case s of
        [] \<Rightarrow> None
      | c # cs \<Rightarrow>
          let ds = (if c = CHR ''-'' \<or> c = CHR ''+'' then cs else s)
          in if ds = [] \<or> 4300 < length ds then None
             else map_option (\<lambda>n. if c = CHR ''-'' then - int n else int n)
                    (digits_val ds 0))"

text \<open>Tokens and statements as sqlparse gives them for some queries on a table \<open>t\<close>.\<close>

definition tok :: "ttype option \<Rightarrow> string \<Rightarrow> token" where
  "tok ty v = \<lparr>ttype = ty, token_value = v\<rparr>"

definition select_star_tokens :: "token list" where
  "select_star_tokens =
     [tok (Some Keyword_DML) ''SELECT'', tok (Some Text_Whitespace) '' '',
      tok (Some Wildcard) ''*'', tok (Some Text_Whitespace) '' '',
      tok (Some Keyword) ''FROM'', tok (Some Text_Whitespace) '' '',
      tok None ''t'']"

definition select_stmt :: "token list \<Rightarrow> statement" where
  "select_stmt ts = \<lparr>get_type = ''SELECT'', tokens = ts\<rparr>"

text \<open>The tokens of \<^verbatim>\<open>SELECT * FROM t LIMIT ALL OFFSET 5\<close>.\<close>

definition limit_all_offset_tokens :: "token list" where
  "limit_all_offset_tokens =
     select_star_tokens @
       [tok (Some Text_Whitespace) '' '', tok (Some Keyword) ''LIMIT'',
        tok (Some Text_Whitespace) '' '', tok (Some Keyword) ''ALL'',
        tok (Some Text_Whitespace) '' '', tok (Some Keyword) ''OFFSET'',
        tok (Some Text_Whitespace) '' '', tok (Some Literal_Number_Integer) ''5'']"

text \<open>The tokens of \<^verbatim>\<open>SELECT * FROM t LIMIT 5 UNION ALL SELECT * FROM t LIMIT 5000\<close>.\<close>

definition union_tokens :: "token list" where
  "union_tokens =
     select_star_tokens @
       [tok (Some Text_Whitespace) '' '', tok (Some Keyword) ''LIMIT'',
        tok (Some Text_Whitespace) '' '', tok (Some Literal_Number_Integer) ''5'',
        tok (Some Text_Whitespace) '' '', tok (Some Keyword) ''UNION ALL'',
        tok (Some Text_Whitespace) '' ''] @
     select_star_tokens @
       [tok (Some Text_Whitespace) '' '', tok (Some Keyword) ''LIMIT'',
        tok (Some Text_Whitespace) '' '', tok (Some Literal_Number_Integer) ''5000'']"

definition example_parse :: "string \<Rightarrow> statement list" where
  "example_parse s =
     (if s = ''SELECT * FROM t'' then [select_stmt select_star_tokens]
      else if s = ''SELECT * FROM t limit 10''
      then [select_stmt (select_star_tokens @
              [tok (Some Text_Whitespace) '' '', tok (Some Keyword) ''limit'',
               tok (Some Text_Whitespace) '' '', tok (Some Literal_Number_Integer) ''10''])]
      else if s = ''SELECT * FROM t LIMIT 5000''
      then [select_stmt (select_star_tokens @
              [tok (Some Text_Whitespace) '' '', tok (Some Keyword) ''LIMIT'',
               tok (Some Text_Whitespace) '' '', tok (Some Literal_Number_Integer) ''5000''])]
      else if s = ''SELECT * FROM t LIMIT ALL''
      then [select_stmt (select_star_tokens @
              [tok (Some Text_Whitespace) '' '', tok (Some Keyword) ''LIMIT'',
               tok (Some Text_Whitespace) '' '', tok (Some Keyword) ''ALL''])]
      else if s = ''SELECT * FROM t LIMIT ALL OFFSET 5''
      then [select_stmt limit_all_offset_tokens]
      else if s = ''SELECT * FROM t LIMIT 5 UNION ALL SELECT * FROM t LIMIT 5000''
      then [select_stmt union_tokens]
      else if s = ''SELECT 1; SELECT 2''
      then [select_stmt [tok (Some Keyword_DML) ''SELECT'', tok (Some Text_Whitespace) '' '',
                         tok (Some Literal_Number_Integer) ''1'', tok (Some Punctuation) '';'',
                         tok (Some Text_Whitespace) '' ''],
            select_stmt [tok (Some Keyword_DML) ''SELECT'', tok (Some Text_Whitespace) '' '',
                         tok (Some Literal_Number_Integer) ''2'']]
      else [])"

text \<open>
  A state in which organisation 1 has the warehouse 7, the broker accepts tasks, and
  nothing has been submitted yet; and a user of organisation 1.
\<close>

definition example_world :: world where
  "example_world =
     \<lparr>org_warehouses = [\<lparr>warehouse_id = 7, warehouse_org = 1, wtype = ''postgres''\<rparr>],
      broker_fault = None,
      task_queue = [],
      uuid_source = (\<lambda>n. ''uuid-'' @ str_nat n),
      uuid_drawn = 0,
      taskprogress = (\<lambda>k. None),
      singletaskprogress = (\<lambda>k. None)\<rparr>"

definition example_orguser :: OrgUser where
  "example_orguser = \<lparr>orguser_id = 3, orguser_org = 1\<rparr>"

definition ask :: "string \<Rightarrow> AskWarehouseRequest" where
  "ask q = \<lparr>sql = q, user_prompt = ''summarize''\<rparr>"

text \<open>The same state with a broker that refuses the connection.\<close>

definition broker_down :: world where
  "broker_down = example_world\<lparr>broker_fault := Some ''connection refused''\<rparr>"

section \<open>Properties\<close>

subsection \<open>Rows and queries\<close>

lemma first_by_None_iff: "first_by k xs = None \<longleftrightarrow> xs = []"
  by (induction xs) (auto split: option.splits)

lemma first_by_mem: "first_by k xs = Some y \<Longrightarrow> y \<in> set xs"
  by (induction xs arbitrary: y) (auto split: option.splits if_splits)

lemma first_by_nonempty: "xs \<noteq> [] \<Longrightarrow> \<exists>y. first_by k xs = Some y"
  by (cases "first_by k xs") (simp_all add: first_by_None_iff)

lemma llm_filter_mem:
  "s \<in> set (llm_filter org_id sid tbl) \<longleftrightarrow>
     s \<in> set tbl \<and> session_id s = sid \<and> org s = org_id
       \<and> session_type s = LONG_TEXT_SUMMARIZATION"
  by (auto simp: llm_filter_def)

lemma first_by_llm_filter:
  "first_by pk (llm_filter org_id sid tbl) = Some s \<Longrightarrow> s \<in> set tbl"
  by (drule first_by_mem) (simp add: llm_filter_mem)

lemma save_row_existing:
  "r \<in> set tbl \<Longrightarrow> k r' = k r \<Longrightarrow>
     save_row k r' tbl = map (\<lambda>x. if k x = k r then r' else x) tbl"
  by (auto simp: save_row_def)

lemma mk_session_sel [simp]:
  "pk (mk_session i sid st nm upd) = i"
  "session_id (mk_session i sid st nm upd) = sid"
  "org (mk_session i sid st nm upd) = 1"
  "session_type (mk_session i sid st nm upd) = LONG_TEXT_SUMMARIZATION"
  "session_status (mk_session i sid st nm upd) = st"
  "session_name (mk_session i sid st nm upd) = nm"
  "updated_at (mk_session i sid st nm upd) = upd"
  by (simp_all add: mk_session_def)

subsection \<open>Feedback\<close>

lemma feedback_not_found:
  "llm_filter org_id sid tbl = [] \<Longrightarrow>
     post_feedback_llm_session org_id now sid fb tbl
       = (Inl (HttpError 404 ''Session not found''), tbl)"
  by (simp add: post_feedback_llm_session_def)

lemma feedback_save_row:
  "s \<in> set tbl \<Longrightarrow>
     save_row pk (s\<lparr>feedback := Some fb, updated_at := now\<rparr>) tbl
       = map (\<lambda>x. if pk x = pk s then s\<lparr>feedback := Some fb, updated_at := now\<rparr> else x) tbl"
  by (rule save_row_existing) simp_all

text \<open>
  Claim C9. \<^verbatim>\<open>post_feedback_llm_session\<close>: when the organisation has no session with the
  identifier, the answer is 404 "Session not found" and the table of sessions is as it
  was. When it has one, the answer is success, and the table differs only in the row of
  that session, whose \<open>feedback\<close> is now the given text, whatever it was before (and whose
  \<open>updated_at\<close> is the time of the write); nothing of the earlier feedback is kept.
\<close>

theorem attach_feedback_not_found_or_overwrites:
  "(llm_filter org_id sid tbl = [] \<longrightarrow>
      post_feedback_llm_session org_id now sid fb tbl
        = (Inl (HttpError 404 ''Session not found''), tbl)) \<and>
   (llm_filter org_id sid tbl \<noteq> [] \<longrightarrow>
      (\<exists>s. first_by pk (llm_filter org_id sid tbl) = Some s \<and> s \<in> set tbl \<and>
           post_feedback_llm_session org_id now sid fb tbl
             = (Inr (Success 1),
                map (\<lambda>x. if pk x = pk s
                          then s\<lparr>feedback := Some fb, updated_at := now\<rparr> else x) tbl)))"
proof (intro conjI impI)
  assume "llm_filter org_id sid tbl = []"
  then show "post_feedback_llm_session org_id now sid fb tbl
        = (Inl (HttpError 404 ''Session not found''), tbl)"
    by (rule feedback_not_found)
next
  assume ne: "llm_filter org_id sid tbl \<noteq> []"
  from first_by_nonempty [OF ne, of pk]
  obtain s where s: "first_by pk (llm_filter org_id sid tbl) = Some s" ..
  have mem: "s \<in> set tbl" by (rule first_by_llm_filter [OF s])
  have "post_feedback_llm_session org_id now sid fb tbl
             = (Inr (Success 1),
                map (\<lambda>x. if pk x = pk s
                          then s\<lparr>feedback := Some fb, updated_at := now\<rparr> else x) tbl)"
    unfolding post_feedback_llm_session_def s option.case feedback_save_row [OF mem] ..
  with s mem show "\<exists>s. first_by pk (llm_filter org_id sid tbl) = Some s \<and> s \<in> set tbl \<and>
           post_feedback_llm_session org_id now sid fb tbl
             = (Inr (Success 1),
                map (\<lambda>x. if pk x = pk s
                          then s\<lparr>feedback := Some fb, updated_at := now\<rparr> else x) tbl)"
    by blast
qed

theorem attach_feedback_witness:
  "llm_filter 1 ''nope'' [running_target, old_saved] = [] \<and>
   post_feedback_llm_session 1 20 ''nope'' ''good'' [running_target, old_saved]
     = (Inl (HttpError 404 ''Session not found''), [running_target, old_saved]) \<and>
   llm_filter 1 ''X'' [running_target, old_saved] \<noteq> [] \<and>
   post_feedback_llm_session 1 20 ''X'' ''good'' [running_target, old_saved]
     = (Inr (Success 1),
        [running_target, old_saved\<lparr>feedback := Some ''good'', updated_at := 20\<rparr>])"
proof -
  have h1: "llm_filter 1 ''nope'' [running_target, old_saved] = []"
    by (simp add: llm_filter_def running_target_def old_saved_def)
  have h2: "llm_filter 1 ''X'' [running_target, old_saved] \<noteq> []"
    by (simp add: llm_filter_def running_target_def old_saved_def)
  have f: "first_by pk (llm_filter 1 ''X'' [running_target, old_saved]) = Some old_saved"
    by (simp add: llm_filter_def running_target_def old_saved_def)
  note t1 = attach_feedback_not_found_or_overwrites
              [of 1 "''nope''" "[running_target, old_saved]" 20 "''good''"]
  note t2 = attach_feedback_not_found_or_overwrites
              [of 1 "''X''" "[running_target, old_saved]" 20 "''good''"]
  from t1 h1 have a: "post_feedback_llm_session 1 20 ''nope'' ''good'' [running_target, old_saved]
     = (Inl (HttpError 404 ''Session not found''), [running_target, old_saved])"
    by simp
  from t2 h2 f have b: "post_feedback_llm_session 1 20 ''X'' ''good'' [running_target, old_saved]
     = (Inr (Success 1),
        [running_target, old_saved\<lparr>feedback := Some ''good'', updated_at := 20\<rparr>])"
    by (simp add: running_target_def old_saved_def)
  from h1 a h2 b show ?thesis by simp
qed

subsection \<open>Saving\<close>

text \<open>
  Claim C1. A save with \<^verbatim>\<open>overwrite=True\<close> and \<^verbatim>\<open>old_session_id="X"\<close> on a target that is
  RUNNING answers 400 "Session is still in progress", and the old session X is gone from
  the table all the same: lines 415-425 delete it before line 427 looks at the status of
  the target.
\<close>

theorem save_running_target_deletes_old_session:
  "post_save_warehouse_prompt_session 1 20 ''new''
      \<lparr>req_session_name = ''report'', req_overwrite = True, req_old_session_id = Some ''X''\<rparr>
      [running_target, old_saved]
   = (Inl (HttpError 400 ''Session is still in progress''), [running_target])"
  by (simp add: post_save_warehouse_prompt_session_def llm_filter_def running_target_def
        old_saved_def delete_old_session_def delete_row_def)

lemma delete_old_session_absent:
  "llm_filter org_id sid tbl = [] \<Longrightarrow> delete_old_session org_id (Some sid) tbl = tbl"
  by (simp add: delete_old_session_def)

lemma save_target_row:
  "s \<in> set tbl \<Longrightarrow>
     save_row pk (s\<lparr>session_name := Some nm, updated_at := now\<rparr>) tbl
       = map (\<lambda>x. if pk x = pk s then s\<lparr>session_name := Some nm, updated_at := now\<rparr> else x) tbl"
  by (rule save_row_existing) simp_all

text \<open>
  Claim C8. A save on an existing session. With \<^verbatim>\<open>overwrite\<close> set and no
  \<^verbatim>\<open>old_session_id\<close> (absent or empty), the answer is 400 "session to overwrite is
  required" and the table of sessions is as it was. With \<^verbatim>\<open>overwrite\<close> set and an
  \<^verbatim>\<open>old_session_id\<close> that no session of the organisation has, nothing is deleted and
  no error comes from that: the handler answers and writes as it does for the same
  request without \<^verbatim>\<open>overwrite\<close>, so a target that is not RUNNING gets its name and the
  answer is success.
\<close>

theorem save_overwrite_old_session_id:
  assumes target: "first_by pk (llm_filter org_id new_session_id tbl) = Some target"
  shows
  "(req_overwrite payload \<and> \<not> truthy (req_old_session_id payload) \<longrightarrow>
      post_save_warehouse_prompt_session org_id now new_session_id payload tbl
        = (Inl (HttpError 400 ''session to overwrite is required''), tbl)) \<and>
   (req_overwrite payload \<and> req_old_session_id payload = Some old_id \<and> old_id \<noteq> []
      \<and> llm_filter org_id old_id tbl = [] \<longrightarrow>
      post_save_warehouse_prompt_session org_id now new_session_id payload tbl
        = post_save_warehouse_prompt_session org_id now new_session_id
            (payload\<lparr>req_overwrite := False\<rparr>) tbl
      \<and> (session_status target \<noteq> RUNNING \<longrightarrow>
           post_save_warehouse_prompt_session org_id now new_session_id payload tbl
             = (Inr (Success 1),
                map (\<lambda>x. if pk x = pk target
                          then target\<lparr>session_name := Some (req_session_name payload),
                                      updated_at := now\<rparr>
                          else x) tbl)))"
proof (intro conjI impI)
  assume "req_overwrite payload \<and> \<not> truthy (req_old_session_id payload)"
  then show "post_save_warehouse_prompt_session org_id now new_session_id payload tbl
        = (Inl (HttpError 400 ''session to overwrite is required''), tbl)"
    by (simp add: post_save_warehouse_prompt_session_def target)
next
  assume h: "req_overwrite payload \<and> req_old_session_id payload = Some old_id \<and> old_id \<noteq> []
      \<and> llm_filter org_id old_id tbl = []"
  then show "post_save_warehouse_prompt_session org_id now new_session_id payload tbl
        = post_save_warehouse_prompt_session org_id now new_session_id
            (payload\<lparr>req_overwrite := False\<rparr>) tbl"
    by (simp add: post_save_warehouse_prompt_session_def target delete_old_session_absent)
next
  assume h: "req_overwrite payload \<and> req_old_session_id payload = Some old_id \<and> old_id \<noteq> []
      \<and> llm_filter org_id old_id tbl = []"
  assume st: "session_status target \<noteq> RUNNING"
  have mem: "target \<in> set tbl" by (rule first_by_llm_filter [OF target])
  from h st show "post_save_warehouse_prompt_session org_id now new_session_id payload tbl
             = (Inr (Success 1),
                map (\<lambda>x. if pk x = pk target
                          then target\<lparr>session_name := Some (req_session_name payload),
                                      updated_at := now\<rparr>
                          else x) tbl)"
    by (simp add: post_save_warehouse_prompt_session_def target delete_old_session_absent
          save_target_row [OF mem])
qed


subsection \<open>Listing\<close>

lemma saved_filter_mem:
  "s \<in> set (saved_filter org_id tbl) \<longleftrightarrow>
     s \<in> set tbl \<and> org s = org_id \<and> session_name s \<noteq> None
       \<and> session_type s = LONG_TEXT_SUMMARIZATION"
  by (auto simp: saved_filter_def)

lemma order_by_set: "set (order_by_updated_at_desc xs) = set xs"
  by (simp add: order_by_updated_at_desc_def)

lemma order_by_length: "length (order_by_updated_at_desc xs) = length xs"
  by (simp add: order_by_updated_at_desc_def)

lemma order_by_sorted:
  "sorted_wrt (\<lambda>a b. updated_at b \<le> updated_at a) (order_by_updated_at_desc xs)"
proof -
  have "sorted (map (\<lambda>s. - updated_at s) (order_by_updated_at_desc xs))"
    by (simp add: order_by_updated_at_desc_def)
  then show ?thesis
    by (simp add: sorted_map sorted_wrt_iff_nth_less)
qed

lemma window_sorted:
  "sorted_wrt P xs \<Longrightarrow> sorted_wrt P (drop a (take b xs))"
  by (simp add: sorted_wrt_drop sorted_wrt_take)

lemma window_set: "set (drop a (take b xs)) \<subseteq> set xs"
  by (meson set_drop_subset set_take_subset subset_trans)

lemma to_row_sel [simp]:
  "row_session_name (to_row s) = session_name s"
  "row_updated_at (to_row s) = updated_at s"
  by (simp_all add: to_row_def)




lemma window_saved:
  "s \<in> set (drop a (take b (order_by_updated_at_desc (saved_filter org_id tbl))))
     \<Longrightarrow> session_name s \<noteq> None"
proof -
  assume "s \<in> set (drop a (take b (order_by_updated_at_desc (saved_filter org_id tbl))))"
  then have "s \<in> set (order_by_updated_at_desc (saved_filter org_id tbl))"
    by (rule subsetD [OF window_set])
  then have "s \<in> set (saved_filter org_id tbl)"
    by (simp only: order_by_set)
  then show ?thesis
    by (simp only: saved_filter_mem) simp
qed

text \<open>
  Claim C7. \<^verbatim>\<open>get_warehouse_llm_analysis_sessions\<close> with bounds that are not negative:
  the rows are the sessions of the organisation with a name, by decreasing \<open>updated_at\<close>,
  from position \<open>offset\<close> up to position \<open>offset + limit\<close>; every row has a name;
  \<open>total_rows\<close> is the number of all saved sessions of the organisation, whatever the
  window is. With three saved and two unsaved sessions, limit 10 and offset 0 give three
  rows and \<open>total_rows = 3\<close> (shown below on a table of five sessions).
\<close>

theorem list_saved_page:
  assumes "0 \<le> offset" and "0 \<le> offset + limit"
  shows "\<exists>page.
      get_warehouse_llm_analysis_sessions org_id limit offset tbl = Inr page
    \<and> total_rows page = length (saved_filter org_id tbl)
    \<and> rows page = map to_row (drop (nat offset) (take (nat (offset + limit))
                      (order_by_updated_at_desc (saved_filter org_id tbl))))
    \<and> (\<forall>r \<in> set (rows page). row_session_name r \<noteq> None)
    \<and> sorted_wrt (\<lambda>a b. row_updated_at b \<le> row_updated_at a) (rows page)
    \<and> length (rows page)
        = min (length (saved_filter org_id tbl)) (nat (offset + limit)) - nat offset"
proof -
  let ?all = "order_by_updated_at_desc (saved_filter org_id tbl)"
  let ?win = "drop (nat offset) (take (nat (offset + limit)) ?all)"
  let ?page = "\<lparr>page_limit = limit, page_offset = offset,
               total_rows = length (saved_filter org_id tbl),
               rows = map to_row ?win\<rparr>"
  have res: "get_warehouse_llm_analysis_sessions org_id limit offset tbl = Inr ?page"
    using assms by (simp add: get_warehouse_llm_analysis_sessions_def queryset_slice_def)
  have sel: "total_rows ?page = length (saved_filter org_id tbl)"
    "rows ?page = map to_row ?win"
    by simp_all
  have named: "\<forall>r \<in> set (map to_row ?win). row_session_name r \<noteq> None"
  proof (rule ballI)
    fix r assume "r \<in> set (map to_row ?win)"
    then have "r \<in> to_row ` set ?win" by (simp only: set_map)
    then obtain s where r: "r = to_row s" and s: "s \<in> set ?win" by (rule imageE)
    from window_saved [OF s] have "session_name s \<noteq> None" .
    then show "row_session_name r \<noteq> None" unfolding r to_row_sel .
  qed
  have "sorted_wrt (\<lambda>a b. updated_at b \<le> updated_at a) ?win"
    by (rule window_sorted [OF order_by_sorted])
  then have sorted: "sorted_wrt (\<lambda>a b. row_updated_at b \<le> row_updated_at a) (map to_row ?win)"
    unfolding sorted_wrt_map to_row_sel .
  have len: "length (map to_row ?win)
        = min (length (saved_filter org_id tbl)) (nat (offset + limit)) - nat offset"
    by (simp add: order_by_length)
  show ?thesis
  proof (intro exI conjI)
    show "get_warehouse_llm_analysis_sessions org_id limit offset tbl = Inr ?page"
      by (rule res)
    show "total_rows ?page = length (saved_filter org_id tbl)" by (rule sel)
    show "rows ?page = map to_row ?win" by (rule sel)
    show "\<forall>r \<in> set (rows ?page). row_session_name r \<noteq> None"
      unfolding sel by (rule named)
    show "sorted_wrt (\<lambda>a b. row_updated_at b \<le> row_updated_at a) (rows ?page)"
      unfolding sel by (rule sorted)
    show "length (rows ?page)
        = min (length (saved_filter org_id tbl)) (nat (offset + limit)) - nat offset"
      unfolding sel by (rule len)
  qed
qed

lemma five_saved:
  "saved_filter 1 five_sessions =
     [mk_session 1 ''a'' COMPLETE (Some ''first'') 30,
      mk_session 3 ''c'' COMPLETE (Some ''second'') 50,
      mk_session 5 ''e'' ERROR (Some ''third'') 40]"
  by (simp add: saved_filter_def five_sessions_def)

lemma five_ordered:
  "order_by_updated_at_desc (saved_filter 1 five_sessions) =
     [mk_session 3 ''c'' COMPLETE (Some ''second'') 50,
      mk_session 5 ''e'' ERROR (Some ''third'') 40,
      mk_session 1 ''a'' COMPLETE (Some ''first'') 30]"
  unfolding five_saved order_by_updated_at_desc_def by simp



theorem list_saved_page_witness:
  "(0::int) \<le> 0 \<and> (0::int) \<le> 0 + 10 \<and>
   (\<exists>page. get_warehouse_llm_analysis_sessions 1 10 0 five_sessions = Inr page
      \<and> total_rows page = 3 \<and> length (rows page) = 3
      \<and> map row_session_name (rows page) = [Some ''second'', Some ''third'', Some ''first''])"
proof -
  have h1: "(0::int) \<le> 0" and h2: "(0::int) \<le> 0 + 10" by simp_all
  from list_saved_page [OF h1 h2, of 1 five_sessions]
  obtain page where pp:
      "get_warehouse_llm_analysis_sessions 1 10 0 five_sessions = Inr page
    \<and> total_rows page = length (saved_filter 1 five_sessions)
    \<and> rows page = map to_row (drop (nat 0) (take (nat (0 + 10))
                      (order_by_updated_at_desc (saved_filter 1 five_sessions))))
    \<and> (\<forall>r \<in> set (rows page). row_session_name r \<noteq> None)
    \<and> sorted_wrt (\<lambda>a b. row_updated_at b \<le> row_updated_at a) (rows page)
    \<and> length (rows page)
        = min (length (saved_filter 1 five_sessions)) (nat (0 + 10)) - nat 0" ..
  note p = pp [THEN conjunct1]
  note t = pp [THEN conjunct2, THEN conjunct1]
  note r = pp [THEN conjunct2, THEN conjunct2, THEN conjunct1]
  have t3: "total_rows page = 3" unfolding t five_saved by simp
  have r3: "length (rows page) = 3" unfolding r five_ordered by simp
  have n3: "map row_session_name (rows page)
      = [Some ''second'', Some ''third'', Some ''first'']"
    unfolding r five_ordered by simp
  have "\<exists>page. get_warehouse_llm_analysis_sessions 1 10 0 five_sessions = Inr page
      \<and> total_rows page = 3 \<and> length (rows page) = 3
      \<and> map row_session_name (rows page) = [Some ''second'', Some ''third'', Some ''first'']"
    by (rule exI [of _ page]) (intro conjI p t3 r3 n3)
  with h1 h2 show ?thesis by (intro conjI)
qed

theorem save_overwrite_witness:
  "first_by pk (llm_filter 1 ''new'' [complete_target, old_saved]) = Some complete_target \<and>
   post_save_warehouse_prompt_session 1 20 ''new''
      \<lparr>req_session_name = ''report'', req_overwrite = True, req_old_session_id = None\<rparr>
      [complete_target, old_saved]
     = (Inl (HttpError 400 ''session to overwrite is required''), [complete_target, old_saved]) \<and>
   llm_filter 1 ''gone'' [complete_target, old_saved] = [] \<and>
   post_save_warehouse_prompt_session 1 20 ''new''
      \<lparr>req_session_name = ''report'', req_overwrite = True, req_old_session_id = Some ''gone''\<rparr>
      [complete_target, old_saved]
     = (Inr (Success 1),
        [complete_target\<lparr>session_name := Some ''report'', updated_at := 20\<rparr>, old_saved])"
proof -
  let ?tbl = "[complete_target, old_saved]"
  let ?p1 = "\<lparr>req_session_name = ''report'', req_overwrite = True, req_old_session_id = None\<rparr>"
  let ?p2 = "\<lparr>req_session_name = ''report'', req_overwrite = True,
              req_old_session_id = Some ''gone''\<rparr>"
  have tg: "first_by pk (llm_filter 1 ''new'' ?tbl) = Some complete_target"
    by (simp add: llm_filter_def complete_target_def old_saved_def)
  have ab: "llm_filter 1 ''gone'' ?tbl = []"
    by (simp add: llm_filter_def complete_target_def old_saved_def)
  have st: "session_status complete_target \<noteq> RUNNING"
    by (simp add: complete_target_def)
  have pre1: "req_overwrite ?p1 \<and> \<not> truthy (req_old_session_id ?p1)" by simp
  have pre2: "req_overwrite ?p2 \<and> req_old_session_id ?p2 = Some ''gone'' \<and> ''gone'' \<noteq> []
      \<and> llm_filter 1 ''gone'' ?tbl = []"
    using ab by simp
  note T1 = save_overwrite_old_session_id [OF tg, of ?p1 20 "''gone''"]
  note T2 = save_overwrite_old_session_id [OF tg, of ?p2 20 "''gone''"]
  from T1 [THEN conjunct1, THEN mp, OF pre1]
  have a: "post_save_warehouse_prompt_session 1 20 ''new'' ?p1 ?tbl
     = (Inl (HttpError 400 ''session to overwrite is required''), ?tbl)" .
  from T2 [THEN conjunct2, THEN mp, OF pre2, THEN conjunct2, THEN mp, OF st]
  have b: "post_save_warehouse_prompt_session 1 20 ''new'' ?p2 ?tbl
     = (Inr (Success 1),
        [complete_target\<lparr>session_name := Some ''report'', updated_at := 20\<rparr>, old_saved])"
    by (simp add: complete_target_def old_saved_def)
  from tg a ab b show ?thesis by (intro conjI)
qed

subsection \<open>Submitting a prompt\<close>

lemma limit_keyword_not_integer: "is_limit_keyword upper t \<Longrightarrow> \<not> is_integer_token t"
  by (simp add: is_limit_keyword_def is_integer_token_def)


lemma scan_tokens_no_integer:
  "\<forall>t \<in> set ts. \<not> is_integer_token t \<Longrightarrow> scan_tokens upper to_int ts (lim, True) = Inr (lim, True)"
  by (induction ts) simp_all

lemma scan_tokens_skip_before:
  "\<forall>t \<in> set pre. \<not> is_limit_keyword upper t \<Longrightarrow>
     scan_tokens upper to_int (pre @ ts) (lim, False) = scan_tokens upper to_int ts (lim, False)"
  by (induction pre) simp_all


lemma scan_tokens_keyword:
  "is_limit_keyword upper kw \<Longrightarrow> scan_tokens upper to_int (kw # ts) (lim, False) = scan_tokens upper to_int ts (lim, True)"
  by (simp add: limit_keyword_not_integer)



lemma scan_limit_without_integer:
  assumes "\<forall>t \<in> set pre. \<not> is_limit_keyword upper t" and "is_limit_keyword upper kw"
    and "\<forall>t \<in> set rest. \<not> is_integer_token t"
  shows "scan_tokens upper to_int (pre @ kw # rest) (PyInf, False) = Inr (PyInf, True)"
  by (simp only: scan_tokens_skip_before [OF assms(1)] scan_tokens_keyword [OF assms(2)]
        scan_tokens_no_integer [OF assms(3)])

lemma apply_async_up:
  "broker_fault w = None \<Longrightarrow>
     apply_async call w
       = Inr (uuid_source w (uuid_drawn w),
              w\<lparr>uuid_drawn := Suc (uuid_drawn w),
                task_queue := task_queue w @ [(uuid_source w (uuid_drawn w), call)]\<rparr>)"
  by (simp add: apply_async_def uuid4_def)

lemma apply_async_down:
  "broker_fault w = Some msg \<Longrightarrow> apply_async call w = Inl (BrokerError msg)"
  by (simp add: apply_async_def)

text \<open>What the handler does once the statement checks and the warehouse lookup have passed.\<close>

lemma prompt_after_checks:
  assumes "parse (sql payload) = [stmt]" and "get_type stmt = ''SELECT''"
    and "org_warehouse_first (orguser_org orguser) w = Some wh"
    and "scan_tokens upper to_int (tokens stmt) (PyInf, False) = Inr (limit, limit_found)"
  shows "post_warehouse_prompt parse upper to_int limit_rows orguser payload w =
     (if limit_found \<and> limit_gt limit limit_rows
      then (Inl (HttpError 400
              (''Please make sure the limit in query is less than '' @ str_int limit_rows)), w)
      else (case apply_async
                   (summarize_warehouse_results (orguser_id orguser) (warehouse_id wh)
                      (if \<not> limit_found then sql payload @ '' LIMIT '' @ str_int limit_rows
                       else sql payload)
                      (user_prompt payload)) w of
              Inl error \<Rightarrow> (Inl (HttpError 400 ''failed to summarize warehouse results''), w)
            | Inr (task_id, w1) \<Rightarrow> (Inr task_id, SingleTaskProgress task_id (60 * 10) w1)))"
  using assms by (simp add: post_warehouse_prompt_def Let_def)

lemma single_task_progress_queue [simp]:
  "task_queue (SingleTaskProgress k ttl w) = task_queue w"
  by (simp add: SingleTaskProgress_def)

text \<open>
  Claim C3. When the SQL of a submission parses into two or more statements, the handler
  answers 400 "Only one query is allowed": the caller gets no task identifier, and the
  state is the one before the request, so nothing was enqueued and no progress entry or
  key was written.
\<close>

theorem two_statements_rejected:
  "2 \<le> length (parse (sql payload)) \<Longrightarrow>
     post_warehouse_prompt parse upper to_int limit_rows orguser payload w
       = (Inl (HttpError 400 ''Only one query is allowed''), w)"
  by (simp add: post_warehouse_prompt_def Let_def)




text \<open>
  When no Integer token at all follows the first LIMIT keyword, \<^verbatim>\<open>limit\<close> stays
  \<^verbatim>\<open>float("inf")\<close>, which is above any maximum, and the handler answers 400 without
  enqueuing: the rejection of an unbounded LIMIT that the handler aims at.
\<close>

lemma limit_never_followed_by_integer:
  assumes "parse (sql payload) = [stmt]" and "get_type stmt = ''SELECT''"
    and "org_warehouse_first (orguser_org orguser) w = Some wh"
    and "tokens stmt = pre @ kw # rest"
    and "\<forall>t \<in> set pre. \<not> is_limit_keyword upper t" and "is_limit_keyword upper kw"
    and "\<forall>t \<in> set rest. \<not> is_integer_token t"
  shows "post_warehouse_prompt parse upper to_int limit_rows orguser payload w
           = (Inl (HttpError 400
                (''Please make sure the limit in query is less than ''
                   @ str_int limit_rows)), w)"
proof -
  have scan: "scan_tokens upper to_int (tokens stmt) (PyInf, False) = Inr (PyInf, True)"
    unfolding assms(4) by (rule scan_limit_without_integer [OF assms(5-7)])
  show ?thesis
    unfolding prompt_after_checks [where parse = parse and payload = payload and upper = upper
        and to_int = to_int, OF assms(1) assms(2) assms(3) scan] by simp
qed

lemma tok_sel [simp]: "ttype (tok ty v) = ty" "token_value (tok ty v) = v"
  by (simp_all add: tok_def)

lemma select_stmt_sel [simp]: "get_type (select_stmt ts) = ''SELECT''" "tokens (select_stmt ts) = ts"
  by (simp_all add: select_stmt_def)

lemma ask_sel [simp]: "sql (ask q) = q" "user_prompt (ask q) = ''summarize''"
  by (simp_all add: ask_def)

lemma example_world_sel [simp]:
  "broker_fault example_world = None"
  "task_queue example_world = []"
  "uuid_drawn example_world = 0"
  "uuid_source example_world n = ''uuid-'' @ str_nat n"
  "taskprogress example_world k = None"
  by (simp_all add: example_world_def)

lemma example_warehouse:
  "org_warehouse_first (orguser_org example_orguser) example_world
     = Some \<lparr>warehouse_id = 7, warehouse_org = 1, wtype = ''postgres''\<rparr>"
  by (simp add: org_warehouse_first_def example_world_def example_orguser_def)

lemma example_orguser_sel [simp]: "orguser_id example_orguser = 3"
  by (simp add: example_orguser_def)


theorem two_statements_rejected_witness:
  "2 \<le> length (example_parse (sql (ask ''SELECT 1; SELECT 2''))) \<and>
   post_warehouse_prompt example_parse upper_ascii int_decimal 1000 example_orguser (ask ''SELECT 1; SELECT 2'')
       example_world
     = (Inl (HttpError 400 ''Only one query is allowed''), example_world)"
proof -
  have h: "2 \<le> length (example_parse (sql (ask ''SELECT 1; SELECT 2'')))"
    by (simp add: example_parse_def)
  from two_statements_rejected
         [where parse = example_parse and upper = upper_ascii and to_int = int_decimal and payload = "ask ''SELECT 1; SELECT 2''", OF h]
  have "post_warehouse_prompt example_parse upper_ascii int_decimal 1000 example_orguser (ask ''SELECT 1; SELECT 2'')
       example_world
     = (Inl (HttpError 400 ''Only one query is allowed''), example_world)" .
  with h show ?thesis by (intro conjI)
qed




text \<open>
  Claim C10. \<^verbatim>\<open>SELECT * FROM t LIMIT ALL OFFSET 5\<close> holds a LIMIT keyword that is followed
  by \<^verbatim>\<open>ALL\<close>, not by an integer. The handler does not reject it: the scan runs on to the
  5 after \<^verbatim>\<open>OFFSET\<close>, takes it for the limit, finds it below the maximum and enqueues the
  query, which has no bound on its rows, as submitted.
\<close>

theorem limit_all_offset_dispatched:
  "example_parse ''SELECT * FROM t LIMIT ALL OFFSET 5'' = [select_stmt limit_all_offset_tokens] \<and>
   fst (post_warehouse_prompt example_parse upper_ascii int_decimal 1000 example_orguser
          (ask ''SELECT * FROM t LIMIT ALL OFFSET 5'') example_world)
     = Inr ''uuid-0'' \<and>
   task_queue (snd (post_warehouse_prompt example_parse upper_ascii int_decimal 1000
          example_orguser (ask ''SELECT * FROM t LIMIT ALL OFFSET 5'') example_world))
     = [(''uuid-0'', summarize_warehouse_results 3 7
           ''SELECT * FROM t LIMIT ALL OFFSET 5'' ''summarize'')]"
  by (simp add: post_warehouse_prompt_def example_parse_def limit_all_offset_tokens_def
        select_star_tokens_def is_limit_keyword_def is_integer_token_def
        upper_ascii_def upper_ascii_char_def int_decimal_def digit_val_def
        example_warehouse apply_async_def uuid4_def Let_def)

subsection \<open>Submitting an insight computation\<close>

lemma taskprogress_add_sel [simp]:
  "taskprogress (taskprogress_add prefix tid e w) (prefix, tid)
     = Some ((case taskprogress w (prefix, tid) of None \<Rightarrow> [] | Some es \<Rightarrow> es) @ [e])"
  "task_queue (taskprogress_add prefix tid e w) = task_queue w"
  "broker_fault (taskprogress_add prefix tid e w) = broker_fault w"
  "uuid_source (taskprogress_add prefix tid e w) = uuid_source w"
  "uuid_drawn (taskprogress_add prefix tid e w) = uuid_drawn w"
  by (simp_all add: taskprogress_add_def)

lemma insights_after_lookup:
  assumes "org_warehouse_first (orguser_org orguser) w = Some wh"
  shows "post_data_insights orguser payload w =
     (let task_id = uuid_source w (uuid_drawn w);
          w2 = taskprogress_add DATAINSIGHTS task_id fetching_entry
                 (w\<lparr>uuid_drawn := Suc (uuid_drawn w)\<rparr>)
      in case apply_async (poll_for_column_insights (warehouse_id wh) payload task_id) w2 of
           Inl err \<Rightarrow> (Inl (HttpError 500 (case err of BrokerError msg \<Rightarrow> msg
                                                      | ValueError \<Rightarrow> [])), w2)
         | Inr (celery_id, w3) \<Rightarrow> (Inr task_id, w3))"
  using assms by (simp add: post_data_insights_def uuid4_def Let_def)

text \<open>
  Claim C6. A submission of an insight computation for an organisation with a warehouse.
  The task identifier is the next UUID of \<^verbatim>\<open>uuid.uuid4()\<close>; the payload has no part in it.
  Under that identifier the progress store gets the entry with status FETCHING and no
  results, appended to what the key held (nothing, for a new identifier). The entry is
  written before the task is published: it is there when the broker accepts the task and
  also when the broker fails. When the broker accepts, the caller gets the identifier and
  the task \<^verbatim>\<open>poll_for_column_insights\<close> with that identifier is the newest one in the
  queue, not yet run; when it fails, the answer is 500 and the queue is as before.
\<close>

theorem insight_submission_writes_fetching_then_enqueues:
  assumes "org_warehouse_first (orguser_org orguser) w = Some wh"
  shows "status fetching_entry = RESULT_STATUS_FETCHING \<and> results fetching_entry = []
     \<and> taskprogress (snd (post_data_insights orguser payload w))
           (DATAINSIGHTS, uuid_source w (uuid_drawn w))
         = Some ((case taskprogress w (DATAINSIGHTS, uuid_source w (uuid_drawn w)) of
                    None \<Rightarrow> [] | Some es \<Rightarrow> es) @ [fetching_entry])
     \<and> (broker_fault w = None \<longrightarrow>
           fst (post_data_insights orguser payload w) = Inr (uuid_source w (uuid_drawn w))
         \<and> task_queue (snd (post_data_insights orguser payload w))
             = task_queue w @
               [(uuid_source w (Suc (uuid_drawn w)),
                 poll_for_column_insights (warehouse_id wh) payload
                   (uuid_source w (uuid_drawn w)))])
     \<and> (\<forall>msg. broker_fault w = Some msg \<longrightarrow>
           fst (post_data_insights orguser payload w) = Inl (HttpError 500 msg)
         \<and> task_queue (snd (post_data_insights orguser payload w)) = task_queue w)"
proof -
  note eq = insights_after_lookup [OF assms, of payload]
  let ?tid = "uuid_source w (uuid_drawn w)"
  let ?w2 = "taskprogress_add DATAINSIGHTS ?tid fetching_entry
               (w\<lparr>uuid_drawn := Suc (uuid_drawn w)\<rparr>)"
  have entry: "status fetching_entry = RESULT_STATUS_FETCHING" "results fetching_entry = []"
    by (simp_all add: fetching_entry_def)
  have store: "taskprogress (snd (post_data_insights orguser payload w)) (DATAINSIGHTS, ?tid)
         = Some ((case taskprogress w (DATAINSIGHTS, ?tid) of
                    None \<Rightarrow> [] | Some es \<Rightarrow> es) @ [fetching_entry])"
  proof (cases "broker_fault w")
    case None
    then have "broker_fault ?w2 = None" by simp
    from apply_async_up [OF this] show ?thesis
      unfolding eq by (simp add: Let_def taskprogress_add_def)
  next
    case (Some msg)
    then have "broker_fault ?w2 = Some msg" by simp
    from apply_async_down [OF this] show ?thesis
      unfolding eq by (simp add: Let_def)
  qed
  have up: "broker_fault w = None \<longrightarrow>
           fst (post_data_insights orguser payload w) = Inr ?tid
         \<and> task_queue (snd (post_data_insights orguser payload w))
             = task_queue w @
               [(uuid_source w (Suc (uuid_drawn w)),
                 poll_for_column_insights (warehouse_id wh) payload ?tid)]"
  proof
    assume "broker_fault w = None"
    then have "broker_fault ?w2 = None" by simp
    from apply_async_up [OF this] show "fst (post_data_insights orguser payload w) = Inr ?tid
         \<and> task_queue (snd (post_data_insights orguser payload w))
             = task_queue w @
               [(uuid_source w (Suc (uuid_drawn w)),
                 poll_for_column_insights (warehouse_id wh) payload ?tid)]"
      unfolding eq by (simp add: Let_def)
  qed
  have down: "\<forall>msg. broker_fault w = Some msg \<longrightarrow>
           fst (post_data_insights orguser payload w) = Inl (HttpError 500 msg)
         \<and> task_queue (snd (post_data_insights orguser payload w)) = task_queue w"
  proof (intro allI impI)
    fix msg assume "broker_fault w = Some msg"
    then have "broker_fault ?w2 = Some msg" by simp
    from apply_async_down [OF this]
    show "fst (post_data_insights orguser payload w) = Inl (HttpError 500 msg)
         \<and> task_queue (snd (post_data_insights orguser payload w)) = task_queue w"
      unfolding eq by (simp add: Let_def)
  qed
  from entry store up down show ?thesis by (intro conjI)
qed

theorem insight_submission_witness:
  "fst (post_data_insights example_orguser [(''column_name'', ''age'')] example_world)
     = Inr ''uuid-0'' \<and>
   taskprogress (snd (post_data_insights example_orguser [(''column_name'', ''age'')]
                        example_world)) (DATAINSIGHTS, ''uuid-0'')
     = Some [fetching_entry] \<and>
   task_queue (snd (post_data_insights example_orguser [(''column_name'', ''age'')]
                      example_world))
     = [(''uuid-1'', poll_for_column_insights 7 [(''column_name'', ''age'')] ''uuid-0'')]"
proof -
  note T = insight_submission_writes_fetching_then_enqueues
             [OF example_warehouse, of "[(''column_name'', ''age'')]"]
  have b: "broker_fault example_world = None" by simp
  from T [THEN conjunct2, THEN conjunct2, THEN conjunct1]
  have s: "taskprogress (snd (post_data_insights example_orguser [(''column_name'', ''age'')]
                        example_world)) (DATAINSIGHTS, ''uuid-0'')
     = Some [fetching_entry]"
    by simp
  from T [THEN conjunct2, THEN conjunct2, THEN conjunct2, THEN conjunct1, THEN mp, OF b]
  have q: "fst (post_data_insights example_orguser [(''column_name'', ''age'')] example_world)
     = Inr ''uuid-0'' \<and>
     task_queue (snd (post_data_insights example_orguser [(''column_name'', ''age'')]
                      example_world))
     = [(''uuid-1'', poll_for_column_insights 7 [(''column_name'', ''age'')] ''uuid-0'')]"
    by simp
  from s q show ?thesis by (intro conjI) simp_all
qed

text \<open>
  Claim C2. In \<^verbatim>\<open>post_warehouse_prompt\<close> a query of two statements (InvalidQuery) and a
  failure of the enqueue (Internal) are both answered with status 400; only the missing
  warehouse (NotConfigured) has a status of its own, 404. The sibling handler
  \<^verbatim>\<open>post_data_insights\<close> answers the same enqueue failure with 500.
\<close>

theorem invalid_query_and_enqueue_failure_share_status:
  "fst (post_warehouse_prompt example_parse upper_ascii int_decimal 1000 example_orguser (ask ''SELECT 1; SELECT 2'')
          example_world)
     = Inl (HttpError 400 ''Only one query is allowed'') \<and>
   fst (post_warehouse_prompt example_parse upper_ascii int_decimal 1000 example_orguser (ask ''SELECT * FROM t'')
          broker_down)
     = Inl (HttpError 400 ''failed to summarize warehouse results'') \<and>
   fst (post_warehouse_prompt example_parse upper_ascii int_decimal 1000 example_orguser (ask ''SELECT * FROM t'')
          (example_world\<lparr>org_warehouses := []\<rparr>))
     = Inl (HttpError 404 ''Please set up your warehouse first'') \<and>
   fst (post_data_insights example_orguser [(''column_name'', ''age'')] broker_down)
     = Inl (HttpError 500 ''connection refused'')"
  by (simp add: post_warehouse_prompt_def post_data_insights_def example_parse_def
        broker_down_def org_warehouse_first_def example_world_def example_orguser_def
        apply_async_def uuid4_def taskprogress_add_def Let_def
        select_star_tokens_def is_limit_keyword_def is_integer_token_def
        upper_ascii_def upper_ascii_char_def)

end
